theory Spec2Isabelle
  imports Complex_Main "HOL-Library.Word" "HOL-Library.Sublist"
begin

section \<open>The image conversion endpoint of \<^verbatim>\<open>src/index.ts\<close>\<close>

text \<open>
  The repository is one request handler, \<^verbatim>\<open>app.post("/upload")\<close>, with two helpers,
  \<^verbatim>\<open>isValidImageType\<close> and \<^verbatim>\<open>convertImage\<close>, and one table, \<^verbatim>\<open>SUPPORTED_FORMATS\<close>.
  Everything the handler calls but does not define (the \<^verbatim>\<open>sharp\<close> image library, the
  conversion of a string to a number, \<^verbatim>\<open>Buffer.toString("base64")\<close>) is a field of the
  record \<open>runtime\<close>, and every theorem below holds for every runtime.

  The handler is modelled from the point where \<^verbatim>\<open>c.req.formData()\<close> has resolved: its
  input is the parsed form, a list of entries in the order they were sent.
  Strings are lists of \<^typ>\<open>char\<close>; \<open>toLowerCase\<close> is the case mapping of the ASCII
  letters, which is all that the names of the supported formats contain.
\<close>

subsection \<open>Values of the language\<close>

type_synonym bytes = "8 word list"

text \<open>A JavaScript number: \<open>Num 0\<close> stands for both zeros, which are equally falsy.\<close>

datatype number = NaN | PosInfinity | NegInfinity | Num real

fun falsy :: "number \<Rightarrow> bool" where
  "falsy NaN = True"
| "falsy (Num x) = (x = 0)"
| "falsy PosInfinity = False"
| "falsy NegInfinity = False"

text \<open>\<^verbatim>\<open>a || b\<close> on numbers.\<close>

definition or_else :: "number \<Rightarrow> number \<Rightarrow> number" where
  "or_else a b = (if falsy a then b else a)"

datatype error = Error string | TypeError string

fun message :: "error \<Rightarrow> string" where
  "message (Error m) = m"
| "message (TypeError m) = m"

subsection \<open>Strings and arrays\<close>

fun startsWith :: "string \<Rightarrow> string \<Rightarrow> bool" where
  "startsWith s [] = True"
| "startsWith [] (p # ps) = False"
| "startsWith (c # cs) (p # ps) = (c = p \<and> startsWith cs ps)"

primrec array_includes :: "'a list \<Rightarrow> 'a \<Rightarrow> bool" where
  "array_includes [] x = False"
| "array_includes (y # ys) x = (y = x \<or> array_includes ys x)"

definition toLowerCase_char :: "char \<Rightarrow> char" where
  "toLowerCase_char c =
     (let n = (of_char c :: nat)
      in if 65 \<le> n \<and> n \<le> 90 then char_of (n + 32) else c)"

definition toLowerCase :: "string \<Rightarrow> string" where
  "toLowerCase s = map toLowerCase_char s"

text \<open>
  \<^verbatim>\<open>s.split(sep)\<close> for a separator of one character: the pieces between the
  occurrences of the separator, so one piece more than there are separators.
\<close>

fun split_str :: "string \<Rightarrow> char \<Rightarrow> string list" where
  "split_str [] sep = ['''']"
| "split_str (c # cs) sep =
     (if c = sep then [] # split_str cs sep
      else (case split_str cs sep of
              [] \<Rightarrow> [c # '''']
            | w # ws \<Rightarrow> (c # w) # ws))"

text \<open>
  \<^verbatim>\<open>`${xs[0]}`\<close>: element 0 of an array inside a template literal. Reading an empty
  array gives \<^verbatim>\<open>undefined\<close>, which the template prints as a word.
\<close>

fun index0 :: "string list \<Rightarrow> string" where
  "index0 [] = ''undefined''"
| "index0 (x # xs) = x"

subsection \<open>The format table\<close>

definition SUPPORTED_FORMATS :: "(string \<times> string) list" where
  "SUPPORTED_FORMATS =
     [(''webp'', ''image/webp''),
      (''avif'', ''image/avif''),
      (''jpg'', ''image/jpeg''),
      (''jpeg'', ''image/jpeg''),
      (''png'', ''image/png'')]"

definition Object_keys :: "(string \<times> 'v) list \<Rightarrow> string list" where
  "Object_keys obj = map fst obj"

definition Object_values :: "(string \<times> 'v) list \<Rightarrow> 'v list" where
  "Object_values obj = map snd obj"

subsection \<open>Uploaded files and the form\<close>

record File =
  file_name :: string
  file_type :: string
  file_content :: bytes

datatype FormDataEntryValue = FString string | FFile File

type_synonym FormData = "(string \<times> FormDataEntryValue) list"

definition formData_getAll :: "FormData \<Rightarrow> string \<Rightarrow> FormDataEntryValue list" where
  "formData_getAll fd k = map snd (filter (\<lambda>e. fst e = k) fd)"

definition formData_get :: "FormData \<Rightarrow> string \<Rightarrow> FormDataEntryValue option" where
  "formData_get fd k = (case formData_getAll fd k of [] \<Rightarrow> None | v # vs \<Rightarrow> Some v)"

definition isValidImageType :: "File \<Rightarrow> bool" where
  "isValidImageType f =
     (startsWith (file_type f) ''image/'' \<and>
      array_includes (Object_values SUPPORTED_FORMATS) (file_type f))"

subsection \<open>The image library\<close>

record sharp_metadata =
  md_format :: "string option"
  md_width :: "nat option"
  md_height :: "nat option"

datatype sharp_instance = Sharp bytes

text \<open>
  The four encoder pipelines that \<^verbatim>\<open>convertImage\<close> builds, each with the options
  object it passes: \<^verbatim>\<open>.webp({quality, lossless})\<close>, \<^verbatim>\<open>.avif({quality, lossless})\<close>,
  \<^verbatim>\<open>.jpeg({quality, mozjpeg})\<close>, \<^verbatim>\<open>.png({quality, compressionLevel})\<close>.
\<close>

datatype encoder =
    Webp number "bool option"
  | Avif number "bool option"
  | Jpeg number bool
  | Png number nat

fun encoder_quality :: "encoder \<Rightarrow> number" where
  "encoder_quality (Webp q l) = q"
| "encoder_quality (Avif q l) = q"
| "encoder_quality (Jpeg q m) = q"
| "encoder_quality (Png q n) = q"

record runtime =
  sharp :: "bytes \<Rightarrow> error + sharp_instance"
  metadata :: "sharp_instance \<Rightarrow> error + sharp_metadata option"
  toBuffer :: "encoder \<Rightarrow> sharp_instance \<Rightarrow> error + bytes"
  StringToNumber :: "string \<Rightarrow> number"
  base64 :: "bytes \<Rightarrow> string"

text \<open>
  \<^verbatim>\<open>Number(v)\<close> for what \<^verbatim>\<open>FormData.get\<close> returns: \<^verbatim>\<open>null\<close> is \<open>+0\<close>, a string is
  parsed, and a \<^verbatim>\<open>File\<close> object is first turned into the string \<^verbatim>\<open>[object File]\<close>.
\<close>

definition Number :: "runtime \<Rightarrow> FormDataEntryValue option \<Rightarrow> number" where
  "Number rt v =
     (case v of
        None \<Rightarrow> Num 0
      | Some (FString s) \<Rightarrow> StringToNumber rt s
      | Some (FFile f) \<Rightarrow> StringToNumber rt ''[object File]'')"

subsection \<open>\<^verbatim>\<open>convertImage\<close>\<close>

record options =
  opt_quality :: "number option"
  opt_lossless :: "bool option"

text \<open>\<^verbatim>\<open>options.quality || 80\<close>, where the field may be missing.\<close>

definition default_quality :: "options \<Rightarrow> number" where
  "default_quality opts =
     (case opt_quality opts of None \<Rightarrow> Num 80 | Some q \<Rightarrow> or_else q (Num 80))"

text \<open>
  The \<^verbatim>\<open>switch (format.toLowerCase())\<close>: which encoder is built, or the error of the
  \<^verbatim>\<open>default\<close> branch, whose message quotes the format as it was given.
\<close>

definition format_switch :: "string \<Rightarrow> number \<Rightarrow> options \<Rightarrow> error + encoder" where
  "format_switch format quality opts =
     (let f = toLowerCase format in
      if f = ''webp'' then Inr (Webp quality (opt_lossless opts))
      else if f = ''avif'' then Inr (Avif quality (opt_lossless opts))
      else if f = ''jpg'' \<or> f = ''jpeg'' then Inr (Jpeg quality True)
      else if f = ''png'' then Inr (Png quality 9)
      else Inl (Error (''Unsupported format: '' @ format)))"

text \<open>The body of the \<^verbatim>\<open>try\<close> block of \<^verbatim>\<open>convertImage\<close>.\<close>

definition convertImage_try ::
  "runtime \<Rightarrow> sharp_instance \<Rightarrow> string \<Rightarrow> options \<Rightarrow> error + bytes" where
  "convertImage_try rt sharpInstance format opts =
     (case metadata rt sharpInstance of
        Inl err \<Rightarrow> Inl err
      | Inr None \<Rightarrow> Inl (Error ''Could not read image metadata'')
      | Inr (Some md) \<Rightarrow>
          (let quality = default_quality opts in
           case format_switch format quality opts of
             Inl err \<Rightarrow> Inl err
           | Inr enc \<Rightarrow> toBuffer rt enc sharpInstance))"

text \<open>
  \<^verbatim>\<open>sharp(buffer)\<close> is called before the \<^verbatim>\<open>try\<close>, so what it throws leaves the
  function as it is; what the block throws is wrapped by the \<^verbatim>\<open>catch\<close>.
\<close>

definition convertImage :: "runtime \<Rightarrow> bytes \<Rightarrow> string \<Rightarrow> options \<Rightarrow> error + bytes" where
  "convertImage rt buffer format opts =
     (case sharp rt buffer of
        Inl err \<Rightarrow> Inl err
      | Inr sharpInstance \<Rightarrow>
          (case convertImage_try rt sharpInstance format opts of
             Inl err \<Rightarrow>
               Inl (Error (''Failed to convert to '' @ format @ '': '' @ message err))
           | Inr out \<Rightarrow> Inr out))"

subsection \<open>Promises\<close>

text \<open>
  The callback of \<^verbatim>\<open>files.map\<close> is an \<^verbatim>\<open>async\<close> function. What it throws before its
  first \<^verbatim>\<open>await\<close> rejects its promise while \<^verbatim>\<open>map\<close> is still running; what it throws
  later rejects the promise at some later time.
  \<^verbatim>\<open>Promise.all\<close> rejects with the reason of the promise that is rejected first. Promises
  rejected during \<^verbatim>\<open>map\<close> come first, in the order of the array. Among the others the
  order is a matter of timing, which the number \<open>race\<close> stands for: it selects one of
  the late rejections.
\<close>

datatype 'a promise = Rejected_early error | Rejected_late error | Fulfilled 'a

fun early_rejections :: "'a promise list \<Rightarrow> error list" where
  "early_rejections [] = []"
| "early_rejections (Rejected_early e # ps) = e # early_rejections ps"
| "early_rejections (p # ps) = early_rejections ps"

fun late_rejections :: "'a promise list \<Rightarrow> error list" where
  "late_rejections [] = []"
| "late_rejections (Rejected_late e # ps) = e # late_rejections ps"
| "late_rejections (p # ps) = late_rejections ps"

fun fulfilled_values :: "'a promise list \<Rightarrow> 'a list" where
  "fulfilled_values [] = []"
| "fulfilled_values (Fulfilled v # ps) = v # fulfilled_values ps"
| "fulfilled_values (p # ps) = fulfilled_values ps"

definition Promise_all :: "nat \<Rightarrow> 'a promise list \<Rightarrow> error + 'a list" where
  "Promise_all race ps =
     (case early_rejections ps of
        e # es \<Rightarrow> Inl e
      | [] \<Rightarrow>
          (case late_rejections ps of
             [] \<Rightarrow> Inr (fulfilled_values ps)
           | e # es \<Rightarrow> Inl ((e # es) ! (race mod length (e # es)))))"

subsection \<open>The handler of \<^verbatim>\<open>POST /upload\<close>\<close>

record image_info =
  info_format :: "string option"
  info_width :: "nat option"
  info_height :: "nat option"
  info_size :: nat

record converted_metadata =
  original :: image_info
  converted :: image_info

text \<open>
  One element of \<^verbatim>\<open>convertedFiles\<close>. The field \<open>r_type\<close> is
  \<^verbatim>\<open>SUPPORTED_FORMATS[targetFormat]\<close>, a lookup in the table: \<open>None\<close> for a string that is
  not one of its keys, a case the handler has excluded before the callback runs.
\<close>

record converted_file =
  r_name :: string
  r_buffer :: string
  r_originalName :: string
  r_size :: nat
  r_type :: "string option"
  r_metadata :: converted_metadata

text \<open>
  The \<^verbatim>\<open>try\<close> block of the callback, for one file. \<^verbatim>\<open>file.arrayBuffer()\<close> gives the
  content of the file; each \<^verbatim>\<open>sharp(...).metadata()\<close> is the constructor followed by the
  read, and either of them may throw.
\<close>

definition convert_file ::
  "runtime \<Rightarrow> string \<Rightarrow> number \<Rightarrow> bool \<Rightarrow> File \<Rightarrow> error + converted_file" where
  "convert_file rt targetFormat quality lossless f =
     (let buffer = file_content f in
      case sharp rt buffer of
        Inl err \<Rightarrow> Inl err
      | Inr inst \<Rightarrow>
     (case metadata rt inst of
        Inl err \<Rightarrow> Inl err
      | Inr None \<Rightarrow> Inl (Error ''Could not read original image metadata'')
      | Inr (Some originalInfo) \<Rightarrow>
     (case convertImage rt buffer targetFormat
             \<lparr>opt_quality = Some quality, opt_lossless = Some lossless\<rparr> of
        Inl err \<Rightarrow> Inl err
      | Inr convertedBuffer \<Rightarrow>
     (case sharp rt convertedBuffer of
        Inl err \<Rightarrow> Inl err
      | Inr inst' \<Rightarrow>
     (case metadata rt inst' of
        Inl err \<Rightarrow> Inl err
      | Inr None \<Rightarrow> Inl (Error ''Could not read converted image metadata'')
      | Inr (Some convertedInfo) \<Rightarrow>
          Inr \<lparr>r_name = index0 (split_str (file_name f) CHR ''.'') @ ''.''
                         @ toLowerCase targetFormat,
               r_buffer = base64 rt convertedBuffer,
               r_originalName = file_name f,
               r_size = length convertedBuffer,
               r_type = map_of SUPPORTED_FORMATS targetFormat,
               r_metadata =
                 \<lparr>original =
                    \<lparr>info_format = md_format originalInfo,
                     info_width = md_width originalInfo,
                     info_height = md_height originalInfo,
                     info_size = length buffer\<rparr>,
                  converted =
                    \<lparr>info_format = md_format convertedInfo,
                     info_width = md_width convertedInfo,
                     info_height = md_height convertedInfo,
                     info_size = length convertedBuffer\<rparr>\<rparr>\<rparr>)))))"

text \<open>
  The callback. An entry of the form that is a string, not a file, has no \<^verbatim>\<open>type\<close>,
  and \<^verbatim>\<open>isValidImageType\<close> throws a \<^verbatim>\<open>TypeError\<close> on it. Both this and the
  \<^verbatim>\<open>Invalid file type\<close> error are thrown before the first \<^verbatim>\<open>await\<close>.
\<close>

definition process_file ::
  "runtime \<Rightarrow> string \<Rightarrow> number \<Rightarrow> bool \<Rightarrow> FormDataEntryValue \<Rightarrow> converted_file promise"
where
  "process_file rt targetFormat quality lossless entry =
     (case entry of
        FString s \<Rightarrow>
          Rejected_early
            (TypeError ''Cannot read properties of undefined (reading 'startsWith')'')
      | FFile f \<Rightarrow>
          if \<not> isValidImageType f
          then Rejected_early (Error (''Invalid file type: '' @ file_name f))
          else (case convert_file rt targetFormat quality lossless f of
                  Inl err \<Rightarrow>
                    Rejected_late
                      (Error (''Failed to convert '' @ file_name f @ '': '' @ message err))
                | Inr r \<Rightarrow> Fulfilled r))"

datatype body =
    Converted string "converted_file list"
  | Failure string
  | Failure_details string string

datatype response = Response (status: nat) (body: body)

text \<open>\<^verbatim>\<open>const quality = Number(formData.get("quality")) || 80\<close>\<close>

definition request_quality :: "runtime \<Rightarrow> FormData \<Rightarrow> number" where
  "request_quality rt formData = or_else (Number rt (formData_get formData ''quality'')) (Num 80)"

text \<open>\<^verbatim>\<open>const lossless = formData.get("lossless") === "true"\<close>\<close>

definition request_lossless :: "FormData \<Rightarrow> bool" where
  "request_lossless formData = (formData_get formData ''lossless'' = Some (FString ''true''))"

text \<open>
  \<^verbatim>\<open>formData.get("targetFormat")\<close> is cast to a string but may be \<^verbatim>\<open>null\<close> or a file:
  neither is equal to a key of the table, so \<^verbatim>\<open>includes\<close> is false for them.
\<close>

definition upload :: "runtime \<Rightarrow> nat \<Rightarrow> FormData \<Rightarrow> response" where
  "upload rt race formData =
     (let files = formData_getAll formData ''files'';
          quality = request_quality rt formData;
          lossless = request_lossless formData
      in
      if files = [] then Response 400 (Failure ''No files provided'')
      else
        (case formData_get formData ''targetFormat'' of
           None \<Rightarrow> Response 400 (Failure ''Unsupported format'')
         | Some (FFile f) \<Rightarrow> Response 400 (Failure ''Unsupported format'')
         | Some (FString targetFormat) \<Rightarrow>
             if \<not> array_includes (Object_keys SUPPORTED_FORMATS) targetFormat
             then Response 400 (Failure ''Unsupported format'')
             else
               (case Promise_all race
                       (map (process_file rt targetFormat quality lossless) files) of
                  Inl err \<Rightarrow>
                    Response 500 (Failure_details ''Error processing files'' (message err))
                | Inr convertedFiles \<Rightarrow>
                    Response 200
                      (Converted ''Files converted successfully'' convertedFiles))))"

text \<open>
  A runtime in which the library accepts every buffer, reports a 1 by 1 image and
  encodes by copying, and in which only the strings \<^verbatim>\<open>"0"\<close>, \<^verbatim>\<open>"50"\<close> and \<^verbatim>\<open>"80"\<close>
  are numerals. It serves as the concrete instance of the theorems below.
\<close>

definition sample_runtime :: runtime where
  "sample_runtime =
     \<lparr>sharp = (\<lambda>b. Inr (Sharp b)),
      metadata = (\<lambda>i. Inr (Some \<lparr>md_format = Some ''png'', md_width = Some 1,
                                  md_height = Some 1\<rparr>)),
      toBuffer = (\<lambda>enc i. case i of Sharp b \<Rightarrow> Inr b),
      StringToNumber = (\<lambda>s. if s = ''0'' then Num 0 else if s = ''50'' then Num 50
                              else if s = ''80'' then Num 80 else NaN),
      base64 = (\<lambda>b. [])\<rparr>"

definition sample_info :: "nat \<Rightarrow> image_info" where
  "sample_info n =
     \<lparr>info_format = Some ''png'', info_width = Some 1, info_height = Some 1, info_size = n\<rparr>"

text \<open>
  A request with three files, whose names have several dots, a leading dot and no dot,
  and the response of the handler to it under \<open>sample_runtime\<close>.
\<close>

definition sample_form :: FormData where
  "sample_form =
     [(''files'', FFile \<lparr>file_name = ''photo.with.dots.png'', file_type = ''image/png'',
                          file_content = [1, 2]\<rparr>),
      (''files'', FFile \<lparr>file_name = ''.hidden'', file_type = ''image/jpeg'',
                          file_content = [3]\<rparr>),
      (''files'', FFile \<lparr>file_name = ''README'', file_type = ''image/avif'',
                          file_content = [4, 5, 6]\<rparr>),
      (''targetFormat'', FString ''webp''),
      (''quality'', FString ''50'')]"

definition sample_results :: "converted_file list" where
  "sample_results =
     [\<lparr>r_name = ''photo.webp'', r_buffer = [], r_originalName = ''photo.with.dots.png'',
       r_size = 2, r_type = Some ''image/webp'',
       r_metadata = \<lparr>original = sample_info 2, converted = sample_info 2\<rparr>\<rparr>,
      \<lparr>r_name = ''.webp'', r_buffer = [], r_originalName = ''.hidden'',
       r_size = 1, r_type = Some ''image/webp'',
       r_metadata = \<lparr>original = sample_info 1, converted = sample_info 1\<rparr>\<rparr>,
      \<lparr>r_name = ''README.webp'', r_buffer = [], r_originalName = ''README'',
       r_size = 3, r_type = Some ''image/webp'',
       r_metadata = \<lparr>original = sample_info 3, converted = sample_info 3\<rparr>\<rparr>]"

text \<open>The sample runtime with an encoder that refuses every quality but 50.\<close>

definition strict_runtime :: runtime where
  "strict_runtime =
     sample_runtime
       \<lparr>toBuffer := (\<lambda>enc i. if encoder_quality enc = Num 50 then toBuffer sample_runtime enc i
                               else Inl (Error ''Expected quality 50''))\<rparr>"

subsection \<open>The quality of a request, as the specification words it\<close>

text \<open>
  80 if the \<^verbatim>\<open>quality\<close> field is absent, is not a number or is zero; the numeric value of
  the field otherwise. This definition follows the specification; \<open>request_quality\<close> and
  \<open>default_quality\<close> above follow the source.
\<close>

definition quality_as_specified :: "runtime \<Rightarrow> FormData \<Rightarrow> number" where
  "quality_as_specified rt fd =
     (case formData_get fd ''quality'' of
        None \<Rightarrow> Num 80
      | Some v \<Rightarrow>
          if Number rt (Some v) = NaN \<or> Number rt (Some v) = Num 0 then Num 80
          else Number rt (Some v))"

section \<open>Properties\<close>

subsection \<open>Strings, arrays and promises\<close>

lemma array_includes_set: "array_includes xs x \<longleftrightarrow> x \<in> set xs"
  by (induction xs) auto

lemma startsWith_prefix: "startsWith s p \<longleftrightarrow> prefix p s"
  by (induction s p rule: startsWith.induct) auto

lemma split_str_not_Nil: "split_str s sep \<noteq> []"
  by (induction s) (auto split: list.splits)

lemma index0_split_str: "index0 (split_str s sep) = takeWhile (\<lambda>c. c \<noteq> sep) s"
proof (induction s)
  case Nil
  show ?case by simp
next
  case (Cons c cs)
  show ?case
  proof (cases "c = sep")
    case True
    then show ?thesis by simp
  next
    case False
    obtain w ws where sp: "split_str cs sep = w # ws"
      using split_str_not_Nil [of cs sep] by (cases "split_str cs sep") auto
    with Cons False show ?thesis by simp
  qed
qed

lemma keys_SUPPORTED_FORMATS:
  "set (Object_keys SUPPORTED_FORMATS) = {''webp'', ''avif'', ''jpg'', ''jpeg'', ''png''}"
  by (simp add: Object_keys_def SUPPORTED_FORMATS_def insert_commute)

lemma values_SUPPORTED_FORMATS:
  "set (Object_values SUPPORTED_FORMATS) = {''image/webp'', ''image/avif'', ''image/jpeg'', ''image/png''}"
  by (auto simp add: Object_values_def SUPPORTED_FORMATS_def)

lemma toLowerCase_key:
  "tf \<in> set (Object_keys SUPPORTED_FORMATS) \<Longrightarrow> toLowerCase tf = tf"
  by (auto simp add: keys_SUPPORTED_FORMATS toLowerCase_def toLowerCase_char_def)

lemma map_of_key:
  "tf \<in> set (Object_keys SUPPORTED_FORMATS) \<Longrightarrow> \<exists>mime. map_of SUPPORTED_FORMATS tf = Some mime \<and> mime \<in> set (Object_values SUPPORTED_FORMATS)"
  by (auto simp add: keys_SUPPORTED_FORMATS  values_SUPPORTED_FORMATS) (simp_all add: SUPPORTED_FORMATS_def)

lemma early_rejections_Nil: "early_rejections ps = [] \<longleftrightarrow> (\<forall>p \<in> set ps. \<forall>e. p \<noteq> Rejected_early e)"
  by (induction ps rule: early_rejections.induct) auto

lemma late_rejections_Nil: "late_rejections ps = [] \<longleftrightarrow> (\<forall>p \<in> set ps. \<forall>e. p \<noteq> Rejected_late e)"
  by (induction ps rule: late_rejections.induct) auto

lemma fulfilled_values_all:
  "early_rejections ps = [] \<Longrightarrow> late_rejections ps = [] \<Longrightarrow> map Fulfilled (fulfilled_values ps) = ps"
  by (induction ps rule: fulfilled_values.induct) auto

lemma Promise_all_Inr:
  "Promise_all race ps = Inr vs \<longleftrightarrow> ps = map Fulfilled vs"
proof
  assume "Promise_all race ps = Inr vs"
  then have "early_rejections ps = []" "late_rejections ps = []" "vs = fulfilled_values ps"
    by (auto simp add: Promise_all_def split: list.splits)
  then show "ps = map Fulfilled vs" by (simp add: fulfilled_values_all)
next
  assume ps: "ps = map Fulfilled vs"
  have "early_rejections (map Fulfilled vs) = []" "late_rejections (map Fulfilled vs) = []"
       "fulfilled_values (map Fulfilled vs) = vs"
    by (induction vs) auto
  with ps show "Promise_all race ps = Inr vs" by (simp add: Promise_all_def)
qed

lemma Promise_all_Inl:
  assumes "p \<in> set ps" "\<forall>v. p \<noteq> Fulfilled v"
  shows "\<exists>e. Promise_all race ps = Inl e"
proof (cases "Promise_all race ps")
  case (Inl e)
  then show ?thesis by blast
next
  case (Inr vs)
  then have "ps = map Fulfilled vs" by (simp add: Promise_all_Inr)
  with assms show ?thesis by auto
qed

subsection \<open>The handler and its callback\<close>

lemma process_file_Fulfilled:
  "process_file rt tf q l entry = Fulfilled r \<longleftrightarrow>
     (\<exists>f. entry = FFile f \<and> isValidImageType f \<and> convert_file rt tf q l f = Inr r)"
  by (auto simp add: process_file_def split: FormDataEntryValue.splits sum.splits)

lemma convert_file_fields:
  assumes "convert_file rt tf q l f = Inr r"
  shows "r_name r = takeWhile (\<lambda>c. c \<noteq> CHR ''.'') (file_name f) @ ''.'' @ toLowerCase tf"
    and "r_type r = map_of SUPPORTED_FORMATS tf"
    and "r_originalName r = file_name f"
  using assms
  by (auto simp add: convert_file_def Let_def index0_split_str
           split: sum.splits option.splits)

lemma upload_Converted:
  assumes "upload rt race fd = Response s (Converted m rs)"
  shows "\<exists>tf. formData_get fd ''targetFormat'' = Some (FString tf)
           \<and> tf \<in> set (Object_keys SUPPORTED_FORMATS)
           \<and> map (process_file rt tf (request_quality rt fd) (request_lossless fd))
                  (formData_getAll fd ''files'') = map Fulfilled rs"
  using assms
  by (auto simp add: upload_def Let_def array_includes_set Promise_all_Inr
           split: if_splits option.splits FormDataEntryValue.splits sum.splits)

lemma upload_valid:
  assumes "formData_getAll fd ''files'' \<noteq> []"
    and "formData_get fd ''targetFormat'' = Some (FString tf)"
    and "tf \<in> set (Object_keys SUPPORTED_FORMATS)"
  shows "upload rt race fd =
     (case Promise_all race
             (map (process_file rt tf (request_quality rt fd) (request_lossless fd))
                  (formData_getAll fd ''files'')) of
        Inl err \<Rightarrow> Response 500 (Failure_details ''Error processing files'' (message err))
      | Inr convertedFiles \<Rightarrow>
          Response 200 (Converted ''Files converted successfully'' convertedFiles))"
  using assms by (simp add: upload_def Let_def array_includes_set)

lemma upload_Converted_nth:
  assumes up: "upload rt race fd = Response s (Converted m rs)"
    and tf: "formData_get fd ''targetFormat'' = Some (FString tf)"
  shows "length rs = length (formData_getAll fd ''files'')"
    and "i < length rs \<Longrightarrow>
           \<exists>f. formData_getAll fd ''files'' ! i = FFile f \<and> isValidImageType f \<and>
               convert_file rt tf (request_quality rt fd) (request_lossless fd) f = Inr (rs ! i)"
proof -
  from upload_Converted [OF up] tf
  have eq: "map (process_file rt tf (request_quality rt fd) (request_lossless fd))
                (formData_getAll fd ''files'') = map Fulfilled rs"
    by auto
  from eq have "length (map (process_file rt tf (request_quality rt fd) (request_lossless fd))
                (formData_getAll fd ''files'')) = length (map Fulfilled rs)"
    by simp
  then show len: "length rs = length (formData_getAll fd ''files'')" by simp
  assume i: "i < length rs"
  from eq have "map (process_file rt tf (request_quality rt fd) (request_lossless fd))
                (formData_getAll fd ''files'') ! i = map Fulfilled rs ! i"
    by simp
  with i len
  have "process_file rt tf (request_quality rt fd) (request_lossless fd)
          (formData_getAll fd ''files'' ! i) = Fulfilled (rs ! i)"
    by simp
  then show "\<exists>f. formData_getAll fd ''files'' ! i = FFile f \<and> isValidImageType f \<and>
               convert_file rt tf (request_quality rt fd) (request_lossless fd) f = Inr (rs ! i)"
    by (simp add: process_file_Fulfilled)
qed

lemmas eval_defs =
  upload_def Let_def formData_get_def formData_getAll_def Object_keys_def Object_values_def
  SUPPORTED_FORMATS_def Promise_all_def process_file_def isValidImageType_def
  convert_file_def convertImage_def convertImage_try_def sample_runtime_def
  format_switch_def default_quality_def request_quality_def request_lossless_def
  Number_def or_else_def toLowerCase_def toLowerCase_char_def

text \<open>What makes the promise of an entry fail: the three causes of a rejection.\<close>

lemma process_file_invalid_type:
  "\<not> isValidImageType f \<Longrightarrow>
     process_file rt tf q l (FFile f) =
       Rejected_early (Error (''Invalid file type: '' @ file_name f))"
  by (simp add: process_file_def)

lemma process_file_convert_error:
  "isValidImageType f \<Longrightarrow> convert_file rt tf q l f = Inl err \<Longrightarrow>
     process_file rt tf q l (FFile f) =
       Rejected_late (Error (''Failed to convert '' @ file_name f @ '': '' @ message err))"
  by (simp add: process_file_def)

lemma convert_file_Inr:
  assumes "convert_file rt tf q l f = Inr r"
  shows "\<exists>inst md out inst' md'.
           sharp rt (file_content f) = Inr inst \<and> metadata rt inst = Inr (Some md) \<and>
           convertImage rt (file_content f) tf
             \<lparr>opt_quality = Some q, opt_lossless = Some l\<rparr> = Inr out \<and>
           sharp rt out = Inr inst' \<and> metadata rt inst' = Inr (Some md')"
  using assms
  by (auto simp add: convert_file_def Let_def split: sum.splits option.splits)

subsection \<open>The sample request\<close>

lemma sample_form_response:
  "upload sample_runtime 0 sample_form =
     Response 200 (Converted ''Files converted successfully'' sample_results)"
  by (simp add: sample_form_def sample_results_def sample_info_def eval_defs)

lemma sample_form_targetFormat:
  "formData_get sample_form ''targetFormat'' = Some (FString ''webp'')"
  by (simp add: sample_form_def formData_get_def formData_getAll_def)

subsection \<open>The quality that reaches the encoder\<close>

lemma default_quality_request:
  "default_quality \<lparr>opt_quality = Some (request_quality rt fd), opt_lossless = l\<rparr>
     = request_quality rt fd"
  by (simp add: default_quality_def request_quality_def or_else_def)

lemma request_quality_as_specified: "request_quality rt fd = quality_as_specified rt fd"
proof (cases "formData_get fd ''quality''")
  case None
  then show ?thesis
    by (simp add: request_quality_def quality_as_specified_def Number_def or_else_def)
next
  case (Some v)
  then show ?thesis
    by (cases "Number rt (Some v)")
       (simp_all add: request_quality_def quality_as_specified_def or_else_def)
qed

lemma format_switch_quality:
  "format_switch format q opts = Inr enc \<Longrightarrow> encoder_quality enc = q"
  by (auto simp add: format_switch_def Let_def split: if_splits)

text \<open>
  Two runtimes that differ only in what the encoder does when it is given another
  quality than the one \<^verbatim>\<open>convertImage\<close> computes cannot be told apart.
\<close>

lemma convertImage_agree:
  assumes "sharp rt' = sharp rt" "metadata rt' = metadata rt"
    and "\<forall>enc inst. encoder_quality enc = default_quality opts \<longrightarrow>
            toBuffer rt' enc inst = toBuffer rt enc inst"
  shows "convertImage rt' buffer format opts = convertImage rt buffer format opts"
proof -
  have "convertImage_try rt' inst format opts = convertImage_try rt inst format opts" for inst
    using assms
    by (auto simp add: convertImage_try_def Let_def dest: format_switch_quality
             split: sum.splits option.splits)
  with assms show ?thesis by (simp add: convertImage_def split: sum.splits)
qed

lemma upload_agree:
  assumes s: "sharp rt' = sharp rt" and m: "metadata rt' = metadata rt"
    and n: "StringToNumber rt' = StringToNumber rt" and b: "base64 rt' = base64 rt"
    and t: "\<forall>enc inst. encoder_quality enc = request_quality rt fd \<longrightarrow>
            toBuffer rt' enc inst = toBuffer rt enc inst"
  shows "upload rt' race fd = upload rt race fd"
proof -
  have q: "request_quality rt' fd = request_quality rt fd"
    using n
    by (simp add: request_quality_def Number_def
          split: option.splits FormDataEntryValue.splits)
  have "convertImage rt' buffer tf
          \<lparr>opt_quality = Some (request_quality rt fd), opt_lossless = Some l\<rparr>
      = convertImage rt buffer tf
          \<lparr>opt_quality = Some (request_quality rt fd), opt_lossless = Some l\<rparr>"
    for buffer tf l
    using s m t by (intro convertImage_agree) (simp_all add: default_quality_request)
  then have "convert_file rt' tf (request_quality rt fd) l f
           = convert_file rt tf (request_quality rt fd) l f" for tf l f
    using s m b
    by (simp add: convert_file_def Let_def cong: sum.case_cong option.case_cong)
  then have "process_file rt' tf (request_quality rt fd) l
           = process_file rt tf (request_quality rt fd) l" for tf l
    by (intro ext) (simp add: process_file_def split: FormDataEntryValue.splits)
  with q show ?thesis
    by (simp add: upload_def Let_def split: option.splits FormDataEntryValue.splits)
qed

text \<open>
  The encoder call of \<^verbatim>\<open>convertImage\<close>: once the image is readable and the format is
  a key, the result of \<^verbatim>\<open>convertImage\<close> is the result of the encoder built with the
  defaulted quality; and a converted file carries the output of such a call.
\<close>

lemma convertImage_encodes:
  assumes key: "tf \<in> set (Object_keys SUPPORTED_FORMATS)"
    and inst: "sharp rt buffer = Inr inst"
    and md: "metadata rt inst = Inr (Some md)"
  shows "\<exists>enc. format_switch tf (default_quality opts) opts = Inr enc
           \<and> encoder_quality enc = default_quality opts
           \<and> convertImage rt buffer tf opts =
               (case toBuffer rt enc inst of
                  Inl err \<Rightarrow>
                    Inl (Error (''Failed to convert to '' @ tf @ '': '' @ message err))
                | Inr out \<Rightarrow> Inr out)"
proof -
  from key toLowerCase_key [OF key]
  obtain enc where enc: "format_switch tf (default_quality opts) opts = Inr enc"
    by (auto simp add: format_switch_def Let_def keys_SUPPORTED_FORMATS)
  from format_switch_quality [OF enc]
  have "encoder_quality enc = default_quality opts" .
  moreover
  from inst md enc
  have "convertImage rt buffer tf opts =
               (case toBuffer rt enc inst of
                  Inl err \<Rightarrow>
                    Inl (Error (''Failed to convert to '' @ tf @ '': '' @ message err))
                | Inr out \<Rightarrow> Inr out)"
    by (simp add: convertImage_def convertImage_try_def Let_def)
  ultimately show ?thesis using enc by blast
qed

lemma convertImage_Inr:
  assumes "convertImage rt buffer tf opts = Inr out"
  shows "\<exists>inst enc. sharp rt buffer = Inr inst
           \<and> format_switch tf (default_quality opts) opts = Inr enc
           \<and> encoder_quality enc = default_quality opts
           \<and> toBuffer rt enc inst = Inr out"
  using assms
  by (auto simp add: convertImage_def convertImage_try_def Let_def
        dest: format_switch_quality split: sum.splits option.splits)

lemma convert_file_encoded:
  assumes "convert_file rt tf q l f = Inr r"
  shows "\<exists>inst enc out. sharp rt (file_content f) = Inr inst
           \<and> encoder_quality enc
               = default_quality \<lparr>opt_quality = Some q, opt_lossless = Some l\<rparr>
           \<and> toBuffer rt enc inst = Inr out
           \<and> r_buffer r = base64 rt out \<and> r_size r = length out"
proof -
  from assms obtain out where
    c: "convertImage rt (file_content f) tf
          \<lparr>opt_quality = Some q, opt_lossless = Some l\<rparr> = Inr out"
    and r: "r_buffer r = base64 rt out" "r_size r = length out"
    by (auto simp add: convert_file_def Let_def split: sum.splits option.splits)
  from convertImage_Inr [OF c] r show ?thesis by blast
qed

section \<open>The claims\<close>

text \<open>
  C1. All or nothing. Let \<open>tf\<close> be the target format of the request. A success response
  holds one result for every submitted file, each the result of that file's own
  pipeline: there is no success response with the results of only some of the files.
  And when the request has passed validation, so that the pipeline runs on its files,
  and the promise of one entry is not fulfilled (its declared type is not acceptable,
  its metadata cannot be read, the encoder fails; see \<open>process_file_Fulfilled\<close> and
  \<open>convert_file_Inr\<close>), the response is the 500 response \<^verbatim>\<open>Error processing files\<close>,
  for every runtime and whatever the timing of the promises.
\<close>

theorem batch_all_or_nothing:
  assumes tf: "formData_get fd ''targetFormat'' = Some (FString tf)"
  shows "(upload rt race fd = Response s (Converted m rs) \<longrightarrow>
            map (process_file rt tf (request_quality rt fd) (request_lossless fd))
                (formData_getAll fd ''files'') = map Fulfilled rs)
       \<and> (tf \<in> set (Object_keys SUPPORTED_FORMATS)
            \<and> entry \<in> set (formData_getAll fd ''files'')
            \<and> (\<forall>r. process_file rt tf (request_quality rt fd) (request_lossless fd) entry
                      \<noteq> Fulfilled r)
          \<longrightarrow> (\<exists>details. upload rt race fd =
                  Response 500 (Failure_details ''Error processing files'' details))
              \<and> (\<forall>s' m' rs'. upload rt race fd \<noteq> Response s' (Converted m' rs')))"
proof -
  let ?ps = "map (process_file rt tf (request_quality rt fd) (request_lossless fd))
                 (formData_getAll fd ''files'')"
  have a: "?ps = map Fulfilled rs" if "upload rt race fd = Response s (Converted m rs)"
    using upload_Converted [OF that] tf by auto
  have b: "(\<exists>details. upload rt race fd =
                  Response 500 (Failure_details ''Error processing files'' details))
              \<and> (\<forall>s' m' rs'. upload rt race fd \<noteq> Response s' (Converted m' rs'))"
    if key: "tf \<in> set (Object_keys SUPPORTED_FORMATS)"
      and entry: "entry \<in> set (formData_getAll fd ''files'')"
      and fails: "\<forall>r. process_file rt tf (request_quality rt fd) (request_lossless fd) entry
                      \<noteq> Fulfilled r"
  proof -
    from entry have ne: "formData_getAll fd ''files'' \<noteq> []" by auto
    from entry
    have "process_file rt tf (request_quality rt fd) (request_lossless fd) entry \<in> set ?ps"
      by simp
    from Promise_all_Inl [OF this fails]
    obtain e where "Promise_all race ?ps = Inl e" by blast
    with upload_valid [OF ne tf key, of rt race]
    have "upload rt race fd =
        Response 500 (Failure_details ''Error processing files'' (message e))"
      by simp
    then show ?thesis by simp
  qed
  from a b show ?thesis by blast
qed

text \<open>
  The instance of the specification: a \<^verbatim>\<open>text/plain\<close> file beside a valid image, target
  format webp.
\<close>

theorem batch_all_or_nothing_witness:
  "upload sample_runtime 0
     [(''files'', FFile \<lparr>file_name = ''photo.png'', file_type = ''image/png'',
                          file_content = [1, 2]\<rparr>),
      (''files'', FFile \<lparr>file_name = ''notes.txt'', file_type = ''text/plain'',
                          file_content = [3]\<rparr>),
      (''targetFormat'', FString ''webp'')]
   = Response 500 (Failure_details ''Error processing files'' ''Invalid file type: notes.txt'')"
proof -
  let ?txt = "\<lparr>file_name = ''notes.txt'', file_type = ''text/plain'', file_content = [3]\<rparr>"
  let ?fd = "[(''files'', FFile \<lparr>file_name = ''photo.png'', file_type = ''image/png'',
                          file_content = [1, 2]\<rparr>),
      (''files'', FFile ?txt),
      (''targetFormat'', FString ''webp'')]"
  have h1: "formData_get ?fd ''targetFormat'' = Some (FString ''webp'')"
    by (simp add: formData_get_def formData_getAll_def)
  have h2: "''webp'' \<in> set (Object_keys SUPPORTED_FORMATS)"
    by (simp add: keys_SUPPORTED_FORMATS)
  have h3: "FFile ?txt \<in> set (formData_getAll ?fd ''files'')"
    by (simp add: formData_getAll_def)
  have bad: "\<not> isValidImageType ?txt"
    by (simp add: isValidImageType_def)
  have h4: "\<forall>r. process_file sample_runtime ''webp'' (request_quality sample_runtime ?fd)
                 (request_lossless ?fd) (FFile ?txt) \<noteq> Fulfilled r"
    by (simp add: process_file_invalid_type [OF bad])
  from batch_all_or_nothing [OF h1, of sample_runtime 0 _ _ _ "FFile ?txt"] h2 h3 h4
  obtain details where d: "upload sample_runtime 0 ?fd =
       Response 500 (Failure_details ''Error processing files'' details)"
    by blast
  have "upload sample_runtime 0 ?fd =
       Response 500 (Failure_details ''Error processing files'' ''Invalid file type: notes.txt'')"
    by (simp add: eval_defs)
  with d show ?thesis by simp
qed

text \<open>
  C2. In every success response, the \<^verbatim>\<open>type\<close> field of each returned record is the
  MIME type that \<^verbatim>\<open>SUPPORTED_FORMATS\<close> gives for the target format of the request.
\<close>

theorem converted_type_matches_registry:
  assumes "upload rt race fd = Response s (Converted m rs)"
  shows "\<exists>tf mime. formData_get fd ''targetFormat'' = Some (FString tf)
            \<and> map_of SUPPORTED_FORMATS tf = Some mime
            \<and> (\<forall>r \<in> set rs. r_type r = Some mime)"
proof -
  from upload_Converted [OF assms]
  obtain tf where tf: "formData_get fd ''targetFormat'' = Some (FString tf)"
    and key: "tf \<in> set (Object_keys SUPPORTED_FORMATS)"
    by blast
  from map_of_key [OF key]
  obtain mime where mime: "map_of SUPPORTED_FORMATS tf = Some mime" by blast
  have "r_type r = Some mime" if "r \<in> set rs" for r
  proof -
    from that obtain i where i: "i < length rs" and r: "r = rs ! i"
      by (auto simp add: in_set_conv_nth)
    from upload_Converted_nth(2) [OF assms tf i]
    obtain f where "convert_file rt tf (request_quality rt fd) (request_lossless fd) f = Inr r"
      using r by blast
    from convert_file_fields(2) [OF this] mime show ?thesis by simp
  qed
  with tf mime show ?thesis by blast
qed

theorem converted_type_matches_registry_witness:
  "upload sample_runtime 0 sample_form =
     Response 200 (Converted ''Files converted successfully'' sample_results)
   \<and> map_of SUPPORTED_FORMATS ''webp'' = Some ''image/webp''
   \<and> map r_type sample_results = [Some ''image/webp'', Some ''image/webp'', Some ''image/webp'']"
proof -
  from converted_type_matches_registry [OF sample_form_response]
  obtain tf mime where tf: "formData_get sample_form ''targetFormat'' = Some (FString tf)"
    and mime: "map_of SUPPORTED_FORMATS tf = Some mime"
    and all: "\<forall>r \<in> set sample_results. r_type r = Some mime"
    by blast
  from tf have "tf = ''webp''" by (simp add: sample_form_targetFormat)
  with mime have m: "mime = ''image/webp''" "map_of SUPPORTED_FORMATS ''webp'' = Some ''image/webp''"
    by (simp_all add: SUPPORTED_FORMATS_def)
  from all have "map r_type sample_results = map (\<lambda>r. Some mime) sample_results"
    by simp
  with m have "map r_type sample_results = [Some ''image/webp'', Some ''image/webp'', Some ''image/webp'']"
    by (simp add: sample_results_def)
  with m sample_form_response show ?thesis by simp
qed

text \<open>
  C3. \<^verbatim>\<open>isValidImageType\<close> accepts a file if and only if its declared type starts with
  \<^verbatim>\<open>image/\<close> and is one of the values of \<^verbatim>\<open>SUPPORTED_FORMATS\<close>, that is, if and only if
  it is \<^verbatim>\<open>image/webp\<close>, \<^verbatim>\<open>image/avif\<close>, \<^verbatim>\<open>image/jpeg\<close> or \<^verbatim>\<open>image/png\<close>. The types
  \<^verbatim>\<open>image/gif\<close> and \<^verbatim>\<open>text/plain\<close> are rejected.
\<close>

theorem file_type_guard:
  "(isValidImageType f \<longleftrightarrow>
      prefix ''image/'' (file_type f) \<and> file_type f \<in> set (Object_values SUPPORTED_FORMATS))
   \<and> (isValidImageType f \<longleftrightarrow>
        file_type f \<in> {''image/webp'', ''image/avif'', ''image/jpeg'', ''image/png''})
   \<and> \<not> isValidImageType (f\<lparr>file_type := ''image/gif''\<rparr>)
   \<and> \<not> isValidImageType (f\<lparr>file_type := ''text/plain''\<rparr>)"
proof -
  have a: "isValidImageType g \<longleftrightarrow>
      prefix ''image/'' (file_type g) \<and> file_type g \<in> set (Object_values SUPPORTED_FORMATS)"
    for g
    by (simp add: isValidImageType_def startsWith_prefix array_includes_set)
  have b: "isValidImageType g \<longleftrightarrow>
        file_type g \<in> {''image/webp'', ''image/avif'', ''image/jpeg'', ''image/png''}" for g
    unfolding a values_SUPPORTED_FORMATS by auto
  have c: "\<not> isValidImageType (f\<lparr>file_type := ''image/gif''\<rparr>)"
    by (simp add: b)
  have d: "\<not> isValidImageType (f\<lparr>file_type := ''text/plain''\<rparr>)"
    by (simp add: b)
  from a b c d show ?thesis by blast
qed

theorem file_type_guard_witness:
  "isValidImageType \<lparr>file_name = ''a.png'', file_type = ''image/png'', file_content = []\<rparr>
   \<and> \<not> isValidImageType \<lparr>file_name = ''a.gif'', file_type = ''image/gif'', file_content = []\<rparr>
   \<and> \<not> isValidImageType \<lparr>file_name = ''a.txt'', file_type = ''text/plain'', file_content = []\<rparr>"
  using file_type_guard [of "\<lparr>file_name = ''a.png'', file_type = ''image/png'', file_content = []\<rparr>"]
    file_type_guard [of "\<lparr>file_name = ''a.gif'', file_type = ''image/gif'', file_content = []\<rparr>"]
    file_type_guard [of "\<lparr>file_name = ''a.txt'', file_type = ''text/plain'', file_content = []\<rparr>"]
  by (simp add: values_SUPPORTED_FORMATS)

text \<open>
  C4. In a success response, record \<open>i\<close> belongs to file \<open>i\<close> of the request, and its
  name is the part of that file's name before the first dot, then a dot, then the target
  format in lower case. The name \<^verbatim>\<open>photo.with.dots.png\<close> with target webp gives
  \<^verbatim>\<open>photo.webp\<close>.
\<close>

theorem output_name_derivation:
  assumes up: "upload rt race fd = Response s (Converted m rs)"
    and tf: "formData_get fd ''targetFormat'' = Some (FString tf)"
    and i: "i < length rs"
  shows "\<exists>f. formData_getAll fd ''files'' ! i = FFile f
           \<and> r_originalName (rs ! i) = file_name f
           \<and> r_name (rs ! i) =
               takeWhile (\<lambda>c. c \<noteq> CHR ''.'') (file_name f) @ ''.'' @ toLowerCase tf
           \<and> (file_name f = ''photo.with.dots.png'' \<and> tf = ''webp''
                \<longrightarrow> r_name (rs ! i) = ''photo.webp'')"
proof -
  from upload_Converted_nth(2) [OF up tf i]
  obtain f where f: "formData_getAll fd ''files'' ! i = FFile f"
    and c: "convert_file rt tf (request_quality rt fd) (request_lossless fd) f = Inr (rs ! i)"
    by blast
  from convert_file_fields(1) [OF c]
  have n: "r_name (rs ! i) =
      takeWhile (\<lambda>c. c \<noteq> CHR ''.'') (file_name f) @ ''.'' @ toLowerCase tf" .
  have "r_name (rs ! i) = ''photo.webp''"
    if "file_name f = ''photo.with.dots.png''" "tf = ''webp''"
    using n that by (simp add: toLowerCase_def toLowerCase_char_def)
  with f n convert_file_fields(3) [OF c] show ?thesis by blast
qed

theorem output_name_derivation_witness:
  "upload sample_runtime 0 sample_form =
     Response 200 (Converted ''Files converted successfully'' sample_results)
   \<and> formData_get sample_form ''targetFormat'' = Some (FString ''webp'')
   \<and> (0::nat) < length sample_results
   \<and> r_originalName (sample_results ! 0) = ''photo.with.dots.png''
   \<and> r_name (sample_results ! 0) = ''photo.webp''"
proof -
  have len: "(0::nat) < length sample_results" by (simp add: sample_results_def)
  from output_name_derivation [OF sample_form_response sample_form_targetFormat len]
  obtain f where f: "formData_getAll sample_form ''files'' ! 0 = FFile f"
    and o: "r_originalName (sample_results ! 0) = file_name f"
    and n: "file_name f = ''photo.with.dots.png'' \<and> ''webp'' = ''webp''
              \<longrightarrow> r_name (sample_results ! 0) = ''photo.webp''"
    by blast
  from f have "file_name f = ''photo.with.dots.png''"
    by (auto simp add: sample_form_def formData_getAll_def)
  with o n sample_form_response sample_form_targetFormat len show ?thesis by simp
qed

text \<open>
  C5. The quality that \<^verbatim>\<open>convertImage\<close> hands to the encoder, after the default of the
  handler and its own, is 80 if the \<^verbatim>\<open>quality\<close> field is absent, not numeric or zero,
  and the numeric value of the field otherwise. It is the quality of every encoder call
  of the request. Whenever the image is readable and the format is a key, the result of
  \<^verbatim>\<open>convertImage\<close> is the result of an encoder call made with that quality; every
  record of a success response holds the output of an encoder call made with that
  quality on its own file; and changing what the encoder does at any other quality
  changes nothing in the response.
\<close>

theorem quality_defaults_to_80:
  "default_quality \<lparr>opt_quality = Some (request_quality rt fd), opt_lossless = l\<rparr>
     = quality_as_specified rt fd
   \<and> (sharp rt' = sharp rt \<and> metadata rt' = metadata rt
        \<and> StringToNumber rt' = StringToNumber rt \<and> base64 rt' = base64 rt
        \<and> (\<forall>enc inst. encoder_quality enc = quality_as_specified rt fd \<longrightarrow>
               toBuffer rt' enc inst = toBuffer rt enc inst)
      \<longrightarrow> upload rt' race fd = upload rt race fd)
   \<and> (tf \<in> set (Object_keys SUPPORTED_FORMATS)
        \<and> sharp rt buffer = Inr inst \<and> metadata rt inst = Inr (Some md)
      \<longrightarrow> (\<exists>enc. encoder_quality enc = quality_as_specified rt fd
             \<and> convertImage rt buffer tf
                 \<lparr>opt_quality = Some (request_quality rt fd), opt_lossless = l\<rparr> =
                 (case toBuffer rt enc inst of
                    Inl err \<Rightarrow>
                      Inl (Error (''Failed to convert to '' @ tf @ '': '' @ message err))
                  | Inr out \<Rightarrow> Inr out)))
   \<and> (upload rt race fd = Response s (Converted m rs) \<and> i < length rs
      \<longrightarrow> (\<exists>f inst' enc out.
             formData_getAll fd ''files'' ! i = FFile f
             \<and> sharp rt (file_content f) = Inr inst'
             \<and> encoder_quality enc = quality_as_specified rt fd
             \<and> toBuffer rt enc inst' = Inr out
             \<and> r_buffer (rs ! i) = base64 rt out
             \<and> r_size (rs ! i) = length out))"
proof -
  have dq: "default_quality \<lparr>opt_quality = Some (request_quality rt fd), opt_lossless = l'\<rparr>
     = quality_as_specified rt fd" for l'
    using default_quality_request [of rt fd l'] request_quality_as_specified [of rt fd]
    by (rule trans)
  have a: "upload rt' race fd = upload rt race fd"
    if "sharp rt' = sharp rt" "metadata rt' = metadata rt"
       "StringToNumber rt' = StringToNumber rt" "base64 rt' = base64 rt"
       "\<forall>enc inst. encoder_quality enc = quality_as_specified rt fd \<longrightarrow>
               toBuffer rt' enc inst = toBuffer rt enc inst"
    using that by (intro upload_agree) (simp_all only: request_quality_as_specified)
  have b: "\<exists>enc. encoder_quality enc = quality_as_specified rt fd
             \<and> convertImage rt buffer tf
                 \<lparr>opt_quality = Some (request_quality rt fd), opt_lossless = l\<rparr> =
                 (case toBuffer rt enc inst of
                    Inl err \<Rightarrow>
                      Inl (Error (''Failed to convert to '' @ tf @ '': '' @ message err))
                  | Inr out \<Rightarrow> Inr out)"
    if "tf \<in> set (Object_keys SUPPORTED_FORMATS)" "sharp rt buffer = Inr inst"
       "metadata rt inst = Inr (Some md)"
    using convertImage_encodes [OF that,
        of "\<lparr>opt_quality = Some (request_quality rt fd), opt_lossless = l\<rparr>"]
    by (auto simp only: dq)
  have c: "\<exists>f inst' enc out.
             formData_getAll fd ''files'' ! i = FFile f
             \<and> sharp rt (file_content f) = Inr inst'
             \<and> encoder_quality enc = quality_as_specified rt fd
             \<and> toBuffer rt enc inst' = Inr out
             \<and> r_buffer (rs ! i) = base64 rt out
             \<and> r_size (rs ! i) = length out"
    if up: "upload rt race fd = Response s (Converted m rs)" and i: "i < length rs"
  proof -
    from upload_Converted [OF up]
    obtain tf' where tf': "formData_get fd ''targetFormat'' = Some (FString tf')" by blast
    from upload_Converted_nth(2) [OF up tf' i]
    obtain f where f: "formData_getAll fd ''files'' ! i = FFile f"
      and cf: "convert_file rt tf' (request_quality rt fd) (request_lossless fd) f
                 = Inr (rs ! i)"
      by blast
    from convert_file_encoded [OF cf] f show ?thesis
      by (auto simp only: dq)
  qed
  from dq [of l] a b c show ?thesis by blast
qed

theorem quality_defaults_to_80_witness:
  "quality_as_specified sample_runtime sample_form = Num 50
   \<and> quality_as_specified sample_runtime [(''quality'', FString ''0'')] = Num 80
   \<and> quality_as_specified sample_runtime [(''quality'', FString ''high'')] = Num 80
   \<and> quality_as_specified sample_runtime [] = Num 80
   \<and> upload strict_runtime 0 sample_form =
       Response 200 (Converted ''Files converted successfully'' sample_results)
   \<and> (\<exists>enc. encoder_quality enc = Num 50
          \<and> toBuffer sample_runtime enc (Sharp [1, 2]) = Inr [1, 2]
          \<and> convertImage sample_runtime [1, 2] ''webp''
               \<lparr>opt_quality = Some (Num 50), opt_lossless = Some False\<rparr> = Inr [1, 2])
   \<and> (\<exists>enc out. encoder_quality enc = Num 50
          \<and> toBuffer sample_runtime enc (Sharp [4, 5, 6]) = Inr out
          \<and> r_size (sample_results ! 2) = length out)"
proof -
  have q: "quality_as_specified sample_runtime sample_form = Num 50"
    by (simp add: quality_as_specified_def sample_form_def formData_get_def
          formData_getAll_def Number_def sample_runtime_def)
  have rq: "request_quality sample_runtime sample_form = Num 50"
    using q by (simp only: request_quality_as_specified)
  have k: "''webp'' \<in> set (Object_keys SUPPORTED_FORMATS)"
    by (simp add: keys_SUPPORTED_FORMATS)
  have s: "sharp sample_runtime [1, 2] = Inr (Sharp [1, 2])"
    and md: "metadata sample_runtime (Sharp [1, 2]) =
       Inr (Some \<lparr>md_format = Some ''png'', md_width = Some 1, md_height = Some 1\<rparr>)"
    by (simp_all add: sample_runtime_def)
  have l2: "2 < length sample_results" by (simp add: sample_results_def)
  note t = quality_defaults_to_80 [of sample_runtime sample_form "Some False" strict_runtime 0
      "''webp''" "[1, 2]" "Sharp [1, 2]"
      "\<lparr>md_format = Some ''png'', md_width = Some 1, md_height = Some 1\<rparr>"
      200 "''Files converted successfully''" sample_results 2]
  have 1: "upload strict_runtime 0 sample_form = upload sample_runtime 0 sample_form"
    using t by (simp add: q strict_runtime_def)
  from t k s md obtain enc where e: "encoder_quality enc = Num 50"
    and c: "convertImage sample_runtime [1, 2] ''webp''
               \<lparr>opt_quality = Some (Num 50), opt_lossless = Some False\<rparr> =
             (case toBuffer sample_runtime enc (Sharp [1, 2]) of
                Inl err \<Rightarrow>
                  Inl (Error (''Failed to convert to '' @ ''webp'' @ '': '' @ message err))
              | Inr out \<Rightarrow> Inr out)"
    unfolding q rq by blast
  have tb: "toBuffer sample_runtime enc (Sharp [1, 2]) = Inr [1, 2]"
    by (simp add: sample_runtime_def)
  with c have 2: "convertImage sample_runtime [1, 2] ''webp''
               \<lparr>opt_quality = Some (Num 50), opt_lossless = Some False\<rparr> = Inr [1, 2]"
    by simp
  from t sample_form_response l2
  obtain f inst' enc' out where f: "formData_getAll sample_form ''files'' ! 2 = FFile f"
    and s': "sharp sample_runtime (file_content f) = Inr inst'"
    and e': "encoder_quality enc' = Num 50"
    and tb': "toBuffer sample_runtime enc' inst' = Inr out"
    and sz: "r_size (sample_results ! 2) = length out"
    unfolding q by blast
  from f have "file_content f = [4, 5, 6]"
    by (auto simp add: sample_form_def formData_getAll_def)
  with s' have "inst' = Sharp [4, 5, 6]" by (auto simp add: sample_runtime_def)
  with e' tb' sz have 3: "\<exists>enc out. encoder_quality enc = Num 50
          \<and> toBuffer sample_runtime enc (Sharp [4, 5, 6]) = Inr out
          \<and> r_size (sample_results ! 2) = length out"
    by blast
  from e tb 2 have 4: "\<exists>enc. encoder_quality enc = Num 50
          \<and> toBuffer sample_runtime enc (Sharp [1, 2]) = Inr [1, 2]
          \<and> convertImage sample_runtime [1, 2] ''webp''
               \<lparr>opt_quality = Some (Num 50), opt_lossless = Some False\<rparr> = Inr [1, 2]"
    by blast
  have 5: "quality_as_specified sample_runtime [(''quality'', FString ''0'')] = Num 80"
    "quality_as_specified sample_runtime [(''quality'', FString ''high'')] = Num 80"
    "quality_as_specified sample_runtime [] = Num 80"
    by (simp_all add: quality_as_specified_def formData_get_def
          formData_getAll_def Number_def sample_runtime_def)
  from q 5 1 sample_form_response 3 4 show ?thesis by simp
qed

text \<open>
  C6. A request without files gets the 400 response \<^verbatim>\<open>No files provided\<close>. The response
  is the same for every runtime: nothing of the image library is consulted.
\<close>

theorem no_files_rejected:
  assumes "formData_getAll fd ''files'' = []"
  shows "upload rt race fd = Response 400 (Failure ''No files provided'')"
  using assms by (simp add: upload_def)

theorem no_files_rejected_witness:
  "formData_getAll [(''targetFormat'', FString ''png''), (''quality'', FString ''50'')] ''files'' = []
   \<and> upload sample_runtime 0 [(''targetFormat'', FString ''png''), (''quality'', FString ''50'')]
       = Response 400 (Failure ''No files provided'')"
proof -
  have h: "formData_getAll [(''targetFormat'', FString ''png''), (''quality'', FString ''50'')]
             ''files'' = []"
    by (simp add: formData_getAll_def)
  from no_files_rejected [OF h] h show ?thesis by simp
qed

text \<open>
  C7. A target format that is not a key of \<^verbatim>\<open>SUPPORTED_FORMATS\<close> gets the 400 response
  \<^verbatim>\<open>Unsupported format\<close>, provided the request has at least one file. Without files the
  check of the format is not reached: for the target \<^verbatim>\<open>bmp\<close> and no file, the response
  says \<^verbatim>\<open>No files provided\<close>.
\<close>

theorem unsupported_format_counterexample:
  "formData_get [(''targetFormat'', FString ''bmp'')] ''targetFormat'' = Some (FString ''bmp'')
   \<and> ''bmp'' \<notin> set (Object_keys SUPPORTED_FORMATS)
   \<and> upload sample_runtime 0 [(''targetFormat'', FString ''bmp'')]
        = Response 400 (Failure ''No files provided'')
   \<and> upload sample_runtime 0 [(''targetFormat'', FString ''bmp'')]
        \<noteq> Response 400 (Failure ''Unsupported format'')"
  by (simp add: upload_def formData_get_def formData_getAll_def keys_SUPPORTED_FORMATS)

text \<open>C7 as amended: with at least one file, the format check decides.\<close>

theorem unsupported_format_rejected:
  assumes files: "formData_getAll fd ''files'' \<noteq> []"
    and tf: "\<forall>tf. formData_get fd ''targetFormat'' = Some (FString tf)
                 \<longrightarrow> tf \<notin> set (Object_keys SUPPORTED_FORMATS)"
  shows "upload rt race fd = Response 400 (Failure ''Unsupported format'')"
  using assms
  by (simp add: upload_def Let_def array_includes_set
        split: option.splits FormDataEntryValue.splits)

theorem unsupported_format_rejected_witness:
  "upload sample_runtime 0
     [(''files'', FFile \<lparr>file_name = ''a.png'', file_type = ''image/png'', file_content = [7]\<rparr>),
      (''targetFormat'', FString ''bmp'')]
   = Response 400 (Failure ''Unsupported format'')"
proof -
  let ?fd = "[(''files'', FFile \<lparr>file_name = ''a.png'', file_type = ''image/png'',
                                   file_content = [7]\<rparr>),
              (''targetFormat'', FString ''bmp'')]"
  have h1: "formData_getAll ?fd ''files'' \<noteq> []"
    by (simp add: formData_getAll_def)
  have h2: "\<forall>tf. formData_get ?fd ''targetFormat'' = Some (FString tf)
                 \<longrightarrow> tf \<notin> set (Object_keys SUPPORTED_FORMATS)"
    by (simp add: formData_get_def formData_getAll_def keys_SUPPORTED_FORMATS)
  from unsupported_format_rejected [OF h1 h2] show ?thesis .
qed

text \<open>
  C8. For a target format that is a key of \<^verbatim>\<open>SUPPORTED_FORMATS\<close>, the switch of
  \<^verbatim>\<open>convertImage\<close> builds an encoder and never takes its \<^verbatim>\<open>default\<close> branch. A format
  whose lower-case form is not a key makes the switch throw \<^verbatim>\<open>Unsupported format\<close> and
  \<^verbatim>\<open>convertImage\<close> fail, for every runtime and buffer. The switch is on the lower-case
  form, so a format such as \<^verbatim>\<open>WEBP\<close>, which is not a key, is encoded as webp.
\<close>

theorem convertImage_lowercases_counterexample:
  "''WEBP'' \<notin> set (Object_keys SUPPORTED_FORMATS)
   \<and> convertImage sample_runtime [1, 2] ''WEBP''
        \<lparr>opt_quality = Some (Num 80), opt_lossless = Some False\<rparr> = Inr [1, 2]"
proof -
  have "toLowerCase ''WEBP'' = ''webp''" by code_simp
  then show ?thesis
    by (simp add: keys_SUPPORTED_FORMATS convertImage_def convertImage_try_def
          format_switch_def default_quality_def or_else_def sample_runtime_def)
qed

text \<open>C8 as amended: the lower-case form of the format decides.\<close>

theorem unsupported_branch:
  "(tf \<in> set (Object_keys SUPPORTED_FORMATS) \<longrightarrow> (\<exists>enc. format_switch tf q opts = Inr enc))
   \<and> (toLowerCase format \<notin> set (Object_keys SUPPORTED_FORMATS) \<longrightarrow>
        format_switch format q opts = Inl (Error (''Unsupported format: '' @ format))
        \<and> (\<exists>e. convertImage rt buffer format opts = Inl e))"
proof -
  have a: "\<exists>enc. format_switch tf q opts = Inr enc"
    if "tf \<in> set (Object_keys SUPPORTED_FORMATS)"
    using that toLowerCase_key [OF that]
    by (auto simp add: format_switch_def Let_def keys_SUPPORTED_FORMATS)
  have b: "format_switch format q' opts = Inl (Error (''Unsupported format: '' @ format))"
    if "toLowerCase format \<notin> set (Object_keys SUPPORTED_FORMATS)" for q'
    using that by (simp add: format_switch_def Let_def keys_SUPPORTED_FORMATS)
  have c: "\<exists>e. convertImage rt buffer format opts = Inl e"
    if "toLowerCase format \<notin> set (Object_keys SUPPORTED_FORMATS)"
    using b [OF that]
    by (simp add: convertImage_def convertImage_try_def Let_def
          split: sum.splits option.splits)
  from a b c show ?thesis by blast
qed

theorem unsupported_branch_witness:
  "(\<exists>enc. format_switch ''jpeg'' (Num 80) \<lparr>opt_quality = None, opt_lossless = None\<rparr> = Inr enc)
   \<and> format_switch ''Bmp'' (Num 80) \<lparr>opt_quality = None, opt_lossless = None\<rparr>
        = Inl (Error ''Unsupported format: Bmp'')
   \<and> convertImage sample_runtime [1, 2] ''Bmp'' \<lparr>opt_quality = None, opt_lossless = None\<rparr>
        = Inl (Error ''Failed to convert to Bmp: Unsupported format: Bmp'')"
proof -
  have k: "''jpeg'' \<in> set (Object_keys SUPPORTED_FORMATS)"
    by (simp add: keys_SUPPORTED_FORMATS)
  have "toLowerCase ''Bmp'' = ''bmp''" by code_simp
  then have n: "toLowerCase ''Bmp'' \<notin> set (Object_keys SUPPORTED_FORMATS)"
    by (simp add: keys_SUPPORTED_FORMATS)
  note t = unsupported_branch [of "''jpeg''" "Num 80" "\<lparr>opt_quality = None, opt_lossless = None\<rparr>"
      "''Bmp''" sample_runtime "[1, 2]"]
  from t k have 1: "\<exists>enc. format_switch ''jpeg'' (Num 80)
      \<lparr>opt_quality = None, opt_lossless = None\<rparr> = Inr enc" by blast
  from t n have 2: "format_switch ''Bmp'' (Num 80) \<lparr>opt_quality = None, opt_lossless = None\<rparr>
        = Inl (Error ''Unsupported format: Bmp'')" by simp
  then have 3: "convertImage sample_runtime [1, 2] ''Bmp''
      \<lparr>opt_quality = None, opt_lossless = None\<rparr>
        = Inl (Error ''Failed to convert to Bmp: Unsupported format: Bmp'')"
    by (simp add: convertImage_def convertImage_try_def sample_runtime_def default_quality_def)
  from 1 2 3 show ?thesis by blast
qed

text \<open>
  C9. A request with no files and a target format that is not a key of
  \<^verbatim>\<open>SUPPORTED_FORMATS\<close> gets the 400 response \<^verbatim>\<open>No files provided\<close>, not
  \<^verbatim>\<open>Unsupported format\<close>: the files are checked first.
\<close>

theorem no_files_takes_precedence:
  assumes files: "formData_getAll fd ''files'' = []"
    and tf: "\<forall>tf. formData_get fd ''targetFormat'' = Some (FString tf)
                 \<longrightarrow> tf \<notin> set (Object_keys SUPPORTED_FORMATS)"
  shows "upload rt race fd = Response 400 (Failure ''No files provided'')
       \<and> upload rt race fd \<noteq> Response 400 (Failure ''Unsupported format'')"
  using files by (simp add: upload_def)

theorem no_files_takes_precedence_witness:
  "upload sample_runtime 0 [(''targetFormat'', FString ''tiff''), (''lossless'', FString ''true'')]
     = Response 400 (Failure ''No files provided'')"
proof -
  let ?fd = "[(''targetFormat'', FString ''tiff''), (''lossless'', FString ''true'')]"
  have h1: "formData_getAll ?fd ''files'' = []"
    by (simp add: formData_getAll_def)
  have h2: "\<forall>tf. formData_get ?fd ''targetFormat'' = Some (FString tf)
                 \<longrightarrow> tf \<notin> set (Object_keys SUPPORTED_FORMATS)"
    by (simp add: formData_get_def formData_getAll_def keys_SUPPORTED_FORMATS)
  from no_files_takes_precedence [OF h1 h2] show ?thesis by simp
qed



end
